theory Spec2Isabelle
  imports Main "HOL-Library.Word"
begin

unbundle bit_operations_syntax

section \<open>JavaScript strings\<close>

text \<open>
  A JavaScript string is a sequence of 16-bit code units. String literals of
  \<^verbatim>\<open>script.js\<close> are ASCII, so \<open>js\<close> embeds an ASCII literal
  unit by unit.
\<close>

type_synonym jsstring = "16 word list"

definition js :: "string \<Rightarrow> jsstring" where
  "js s = map of_char s"

text \<open>
  \<^verbatim>\<open>String.prototype.trim\<close> strips WhiteSpace and LineTerminator code
  points from both ends: TAB, VT, FF, ZWNBSP, the Unicode space separators
  (SP, NBSP, U+1680, U+2000..U+200A, U+202F, U+205F, U+3000), and LF, CR,
  U+2028, U+2029. All of them are single code units.
\<close>

definition isStrWhiteSpaceChar :: "16 word \<Rightarrow> bool" where
  "isStrWhiteSpaceChar c =
     (c = 0x0009 \<or> c = 0x000A \<or> c = 0x000B \<or> c = 0x000C \<or> c = 0x000D \<or>
      c = 0x0020 \<or> c = 0x00A0 \<or> c = 0x1680 \<or>
      (0x2000 \<le> c \<and> c \<le> 0x200A) \<or>
      c = 0x2028 \<or> c = 0x2029 \<or> c = 0x202F \<or> c = 0x205F \<or>
      c = 0x3000 \<or> c = 0xFEFF)"

definition trim :: "jsstring \<Rightarrow> jsstring" where
  "trim s = rev (dropWhile isStrWhiteSpaceChar (rev (dropWhile isStrWhiteSpaceChar s)))"

section \<open>Values, property reads and string conversion\<close>

text \<open>
  The values \<^verbatim>\<open>response.json()\<close> can resolve to, and
  \<^verbatim>\<open>undefined\<close>, the result of reading a property that is not
  there. Numbers are kept abstract (type \<open>'n\<close>); how a number prints is a
  parameter of the host. An object is the list of its own properties, keys
  distinct, as \<^verbatim>\<open>JSON.parse\<close> builds it.
\<close>

datatype 'n jsval =
    Undefined
  | Null
  | Bool bool
  | Num 'n
  | Str jsstring
  | Arr "'n jsval list"
  | Obj "(jsstring \<times> 'n jsval) list"

text \<open>
  The ways the asynchronous flow can fail: the promise of
  \<^verbatim>\<open>fetch\<close> rejects, the promise of \<^verbatim>\<open>response.json()\<close>
  rejects, or an operation on a value throws a \<^verbatim>\<open>TypeError\<close>.
\<close>

datatype exn = FetchRejected | JsonRejected | TypeError

text \<open>
  \<^verbatim>\<open>data.response\<close>: reading a property of \<^verbatim>\<open>null\<close> or
  \<^verbatim>\<open>undefined\<close> throws; an object yields its own property of that
  name, if any; neither \<^verbatim>\<open>Object.prototype\<close> nor the prototypes of
  strings, numbers, booleans and arrays have a property named
  \<^verbatim>\<open>response\<close>, so every other read yields \<^verbatim>\<open>undefined\<close>.
\<close>

fun get_response :: "'n jsval \<Rightarrow> exn + 'n jsval" where
  "get_response Undefined = Inl TypeError"
| "get_response Null = Inl TypeError"
| "get_response (Obj props) =
     Inr (case map_of props (js ''response'') of None \<Rightarrow> Undefined | Some v \<Rightarrow> v)"
| "get_response (Bool b) = Inr Undefined"
| "get_response (Num n) = Inr Undefined"
| "get_response (Str s) = Inr Undefined"
| "get_response (Arr xs) = Inr Undefined"

text \<open>
  The conversion a template literal applies to \<^verbatim>\<open>${message}\<close>.
  An array prints as its elements joined by commas, \<^verbatim>\<open>null\<close> and
  \<^verbatim>\<open>undefined\<close> elements as the empty string. A parsed object has
  no callable property of its own: when it has an own property named
  \<^verbatim>\<open>toString\<close> the conversion finds no usable method and throws,
  otherwise \<^verbatim>\<open>Object.prototype.toString\<close> answers.
\<close>

fun ToString :: "('n \<Rightarrow> jsstring) \<Rightarrow> 'n jsval \<Rightarrow> exn + jsstring"
  and element :: "('n \<Rightarrow> jsstring) \<Rightarrow> 'n jsval \<Rightarrow> exn + jsstring"
  and join :: "('n \<Rightarrow> jsstring) \<Rightarrow> 'n jsval list \<Rightarrow> exn + jsstring"
where
  "ToString f Undefined = Inr (js ''undefined'')"
| "ToString f Null = Inr (js ''null'')"
| "ToString f (Bool b) = Inr (if b then js ''true'' else js ''false'')"
| "ToString f (Num n) = Inr (f n)"
| "ToString f (Str s) = Inr s"
| "ToString f (Arr xs) = join f xs"
| "ToString f (Obj props) =
     (if map_of props (js ''toString'') = None then Inr (js ''[object Object]'')
      else Inl TypeError)"
| "element f Undefined = Inr []"
| "element f Null = Inr []"
| "element f (Bool b) = ToString f (Bool b)"
| "element f (Num n) = ToString f (Num n)"
| "element f (Str s) = ToString f (Str s)"
| "element f (Arr xs) = ToString f (Arr xs)"
| "element f (Obj props) = ToString f (Obj props)"
| "join f [] = Inr []"
| "join f [x] = element f x"
| "join f (x # y # ys) =
     (case element f x of
        Inl e \<Rightarrow> Inl e
      | Inr s \<Rightarrow>
          (case join f (y # ys) of
             Inl e \<Rightarrow> Inl e
           | Inr r \<Rightarrow> Inr (s @ js '','' @ r)))"

section \<open>The request body\<close>

text \<open>
  \<^verbatim>\<open>JSON.stringify({ message })\<close> for a string \<^verbatim>\<open>message\<close>:
  the text \<^verbatim>\<open>{"message":\<close>, the quoted string, \<^verbatim>\<open>}\<close>.
  Quoting escapes the double quote, the backslash and the control characters,
  and writes a surrogate that has no partner as a \<^verbatim>\<open>\u\<close> escape
  with four lowercase hexadecimal digits.
\<close>

definition hexDigit :: "16 word \<Rightarrow> 16 word" where
  "hexDigit d = (if d < 10 then 0x30 + d else 0x61 + (d - 10))"

definition unicodeEscape :: "16 word \<Rightarrow> jsstring" where
  "unicodeEscape c =
     [0x5C, 0x75,
      hexDigit (drop_bit 12 c AND 0xF), hexDigit (drop_bit 8 c AND 0xF),
      hexDigit (drop_bit 4 c AND 0xF), hexDigit (c AND 0xF)]"

definition isLeadingSurrogate :: "16 word \<Rightarrow> bool" where
  "isLeadingSurrogate c = (0xD800 \<le> c \<and> c \<le> 0xDBFF)"

definition isTrailingSurrogate :: "16 word \<Rightarrow> bool" where
  "isTrailingSurrogate c = (0xDC00 \<le> c \<and> c \<le> 0xDFFF)"

definition quoteUnit :: "16 word \<Rightarrow> jsstring" where
  "quoteUnit c =
     (if c = 0x08 then [0x5C, 0x62]
      else if c = 0x09 then [0x5C, 0x74]
      else if c = 0x0A then [0x5C, 0x6E]
      else if c = 0x0C then [0x5C, 0x66]
      else if c = 0x0D then [0x5C, 0x72]
      else if c = 0x22 then [0x5C, 0x22]
      else if c = 0x5C then [0x5C, 0x5C]
      else if c < 0x20 \<or> isLeadingSurrogate c \<or> isTrailingSurrogate c then unicodeEscape c
      else [c])"

fun quoteUnits :: "jsstring \<Rightarrow> jsstring" where
  "quoteUnits [] = []"
| "quoteUnits [c] = quoteUnit c"
| "quoteUnits (c # d # cs) =
     (if isLeadingSurrogate c \<and> isTrailingSurrogate d then c # d # quoteUnits cs
      else quoteUnit c @ quoteUnits (d # cs))"

definition QuoteJSONString :: "jsstring \<Rightarrow> jsstring" where
  "QuoteJSONString s = [0x22] @ quoteUnits s @ [0x22]"

definition stringify_message :: "jsstring \<Rightarrow> jsstring" where
  \<open>stringify_message message = js ''{"message":'' @ QuoteJSONString message @ js ''}''\<close>

section \<open>The page\<close>

text \<open>
  An element built by \<^verbatim>\<open>appendMessage\<close>: its class list and the markup
  assigned to its \<^verbatim>\<open>innerHTML\<close>. The markup is kept as the string the
  script hands to the host's parser; what the parser builds from it is the
  host's business.
\<close>

record msg_div =
  classList :: "jsstring list"
  innerHTML :: jsstring

record request =
  url :: jsstring
  http_method :: jsstring
  headers :: "(jsstring \<times> jsstring) list"
  body :: jsstring

text \<open>What the script does to the outside, in the order it does it.\<close>

datatype effect =
    AppendChild msg_div
  | SetInputValue jsstring
  | Fetch request

text \<open>
  The state the script reads and writes: the content of the input field
  (\<^verbatim>\<open>userInput.value\<close>), the children of the log
  (\<^verbatim>\<open>chatLog\<close>) oldest first, the log's scroll offset
  (\<^verbatim>\<open>chatLog.scrollTop\<close>), and the effects so far, oldest first.
\<close>

record page =
  input_value :: jsstring
  children :: "msg_div list"
  scrollTop :: nat
  effects :: "effect list"

text \<open>
  What the host supplies: how a number prints, the height of the log's
  content as laid out from its children (\<^verbatim>\<open>chatLog.scrollHeight\<close>),
  and the height of the log's box (\<^verbatim>\<open>chatLog.clientHeight\<close>).
\<close>

record 'n host =
  numberToString :: "'n \<Rightarrow> jsstring"
  scrollHeight :: "msg_div list \<Rightarrow> nat"
  clientHeight :: nat

definition maxScrollTop :: "'n host \<Rightarrow> page \<Rightarrow> nat" where
  "maxScrollTop h p = scrollHeight h (children p) - clientHeight h"

text \<open>
  Assigning to \<^verbatim>\<open>scrollTop\<close> scrolls to that offset, clamped by the
  host to the range the content allows.
\<close>

definition set_scrollTop :: "'n host \<Rightarrow> nat \<Rightarrow> page \<Rightarrow> page" where
  "set_scrollTop h y p = p\<lparr>scrollTop := min y (maxScrollTop h p)\<rparr>"

definition appendChild :: "msg_div \<Rightarrow> page \<Rightarrow> page" where
  "appendChild d p = p\<lparr>children := children p @ [d], effects := effects p @ [AppendChild d]\<rparr>"

definition set_input_value :: "jsstring \<Rightarrow> page \<Rightarrow> page" where
  "set_input_value v p = p\<lparr>input_value := v, effects := effects p @ [SetInputValue v]\<rparr>"

definition fetch :: "request \<Rightarrow> page \<Rightarrow> page" where
  "fetch r p = p\<lparr>effects := effects p @ [Fetch r]\<rparr>"

section \<open>The script\<close>

text \<open>
  \<^verbatim>\<open>appendMessage(sender, message)\<close>. The template literal converts
  \<^verbatim>\<open>message\<close> to a string before anything is attached to the page, so
  a conversion that throws leaves the page as it was.
\<close>

definition appendMessage :: "'n host \<Rightarrow> jsstring \<Rightarrow> 'n jsval \<Rightarrow> page \<Rightarrow> exn + page" where
  \<open>appendMessage h sender message p =
     (case ToString (numberToString h) message of
        Inl e \<Rightarrow> Inl e
      | Inr m \<Rightarrow>
          (let msgDiv = \<lparr>classList = [js ''message''],
                         innerHTML = js ''<span class="'' @ sender @ js ''">'' @
                           (if sender = js ''user'' then js ''You'' else js ''Bot'') @
                           js '':</span> '' @ m\<rparr>;
               p1 = appendChild msgDiv p
           in Inr (set_scrollTop h (scrollHeight h (children p1)) p1)))\<close>

text \<open>
  The promise an invocation of the asynchronous click handler returns, once
  settled. Nothing observes it: a rejection is an unhandled rejection.
\<close>

datatype completion = Fulfilled | Rejected exn

text \<open>
  Where an invocation of the click handler stands when it gives control back:
  finished, or suspended at \<^verbatim>\<open>await fetch(...)\<close>.
\<close>

datatype task = Settled completion | AwaitingFetch

text \<open>
  How the network exchange ends, as the handler sees it. \<^verbatim>\<open>fetch\<close>
  rejects on a network failure only; a response of any status resolves it.
  \<^verbatim>\<open>response.json()\<close> rejects when the body cannot be read as
  JSON text, and resolves to the value parsed otherwise.
\<close>

datatype 'n body_content = NotJson | Json "'n jsval"

datatype 'n fetch_result = NetworkFailure | Response nat "'n body_content"

text \<open>
  The click handler up to its first \<^verbatim>\<open>await\<close>. An empty string is
  the only falsy string, so \<^verbatim>\<open>!message\<close> tests for it.
\<close>

definition click_handler :: "'n host \<Rightarrow> page \<Rightarrow> page \<times> task" where
  "click_handler h p =
     (let message = trim (input_value p) in
      if message = [] then (p, Settled Fulfilled)
      else
        (case appendMessage h (js ''user'') (Str message) p of
           Inl e \<Rightarrow> (p, Settled (Rejected e))
         | Inr p1 \<Rightarrow>
             (let p2 = set_input_value [] p1;
                  p3 = fetch \<lparr>url = js ''/chat'',
                              http_method = js ''POST'',
                              headers = [(js ''Content-Type'', js ''application/json'')],
                              body = stringify_message message\<rparr> p2
              in (p3, AwaitingFetch))))"

text \<open>
  The rest of the handler, from \<^verbatim>\<open>await fetch(...)\<close> on. It reads the
  body, never the status, and touches the page in its last statement only, so
  it is run on the page as it stands when the body has arrived.
\<close>

definition resume :: "'n host \<Rightarrow> 'n fetch_result \<Rightarrow> page \<Rightarrow> page \<times> completion" where
  "resume h r p =
     (case r of
        NetworkFailure \<Rightarrow> (p, Rejected FetchRejected)
      | Response st b \<Rightarrow>
          (case b of
             NotJson \<Rightarrow> (p, Rejected JsonRejected)
           | Json data \<Rightarrow>
               (case get_response data of
                  Inl e \<Rightarrow> (p, Rejected e)
                | Inr v \<Rightarrow>
                    (case appendMessage h (js ''bot'') v p of
                       Inl e \<Rightarrow> (p, Rejected e)
                     | Inr p' \<Rightarrow> (p', Fulfilled)))))"

text \<open>
  One whole send with nothing else happening in between: the handler up to the
  request, then the rest of it on the outcome \<open>r\<close> of the exchange.
\<close>

definition sendMessage :: "'n host \<Rightarrow> 'n fetch_result \<Rightarrow> page \<Rightarrow> page \<times> completion" where
  "sendMessage h r p =
     (case click_handler h p of
        (p1, Settled c) \<Rightarrow> (p1, c)
      | (p1, AwaitingFetch) \<Rightarrow> resume h r p1)"

text \<open>
  A click on the send control runs its one listener, the click handler. The
  result is the page and the handler invocation started, if any.
\<close>

definition click :: "'n host \<Rightarrow> page \<Rightarrow> page \<times> task option" where
  "click h p = (case click_handler h p of (p', t) \<Rightarrow> (p', Some t))"

text \<open>
  The listener for key presses in the input field: for the key Enter it calls
  \<^verbatim>\<open>sendBtn.click()\<close>, which dispatches a click to the send control;
  for any other key it does nothing.
\<close>

definition keypress_handler :: "'n host \<Rightarrow> jsstring \<Rightarrow> page \<Rightarrow> page \<times> task option" where
  "keypress_handler h key p = (if key = js ''Enter'' then click h p else (p, None))"

datatype event = Click | Keypress jsstring

fun dispatch :: "'n host \<Rightarrow> event \<Rightarrow> page \<Rightarrow> page \<times> task option" where
  "dispatch h Click p = click h p"
| "dispatch h (Keypress key) p = keypress_handler h key p"

text \<open>The requests among a sequence of effects, in order.\<close>

fun fetched :: "effect list \<Rightarrow> request list" where
  "fetched [] = []"
| "fetched (Fetch r # es) = r # fetched es"
| "fetched (AppendChild d # es) = fetched es"
| "fetched (SetInputValue v # es) = fetched es"

section \<open>Reading the request body back\<close>

text \<open>
  The reading side, written from the JSON grammar and not from the script: what
  a JSON parser reads from a text of the form \<^verbatim>\<open>{"message":"..."}\<close>.
  Inside the string a backslash starts an escape (\<^verbatim>\<open>\"\<close>,
  \<^verbatim>\<open>\\\<close>, \<^verbatim>\<open>\/\<close>, \<^verbatim>\<open>\b\<close>, \<^verbatim>\<open>\f\<close>,
  \<^verbatim>\<open>\n\<close>, \<^verbatim>\<open>\r\<close>, \<^verbatim>\<open>\t\<close>, or \<^verbatim>\<open>\u\<close> with
  four hexadecimal digits, which stands for that code unit), a control
  character is refused, and the first double quote that is not escaped ends
  the string. \<open>parseStringTail\<close> starts after the opening quote and
  returns the string read and the text left after the closing quote;
  \<open>parse_message_body\<close> accepts the object with the one member
  \<^verbatim>\<open>message\<close> in its compact form and returns the member's string,
  and refuses every other text.
\<close>

definition hexValue :: "16 word \<Rightarrow> 16 word option" where
  "hexValue d =
     (if 0x30 \<le> d \<and> d \<le> 0x39 then Some (d - 0x30)
      else if 0x61 \<le> d \<and> d \<le> 0x66 then Some (d - 0x61 + 10)
      else if 0x41 \<le> d \<and> d \<le> 0x46 then Some (d - 0x41 + 10)
      else None)"

definition unescapeUnit :: "16 word \<Rightarrow> 16 word option" where
  "unescapeUnit e =
     (if e = 0x22 then Some 0x22
      else if e = 0x5C then Some 0x5C
      else if e = 0x2F then Some 0x2F
      else if e = 0x62 then Some 0x08
      else if e = 0x66 then Some 0x0C
      else if e = 0x6E then Some 0x0A
      else if e = 0x72 then Some 0x0D
      else if e = 0x74 then Some 0x09
      else None)"

definition consUnit :: "16 word \<Rightarrow> (jsstring \<times> jsstring) option \<Rightarrow> (jsstring \<times> jsstring) option" where
  "consUnit u res = (case res of None \<Rightarrow> None | Some (s, rest) \<Rightarrow> Some (u # s, rest))"

fun parseStringTail :: "jsstring \<Rightarrow> (jsstring \<times> jsstring) option" where
  "parseStringTail [] = None"
| "parseStringTail (c # cs) =
     (if c = 0x22 then Some ([], cs)
      else if c = 0x5C then
        (case cs of
           [] \<Rightarrow> None
         | e # r \<Rightarrow>
             if e = 0x75 then
               (case r of
                  x3 # x2 # x1 # x0 # r' \<Rightarrow>
                    (case (hexValue x3, hexValue x2, hexValue x1, hexValue x0) of
                       (Some v3, Some v2, Some v1, Some v0) \<Rightarrow>
                         consUnit (push_bit 12 v3 OR push_bit 8 v2 OR push_bit 4 v1 OR v0)
                           (parseStringTail r')
                     | _ \<Rightarrow> None)
                | _ \<Rightarrow> None)
             else
               (case unescapeUnit e of
                  None \<Rightarrow> None
                | Some u \<Rightarrow> consUnit u (parseStringTail r)))
      else if c < 0x20 then None
      else consUnit c (parseStringTail cs))"

fun stripPrefix :: "jsstring \<Rightarrow> jsstring \<Rightarrow> jsstring option" where
  "stripPrefix [] t = Some t"
| "stripPrefix (x # xs) [] = None"
| "stripPrefix (x # xs) (y # ys) = (if x = y then stripPrefix xs ys else None)"

definition parse_message_body :: "jsstring \<Rightarrow> jsstring option" where
  \<open>parse_message_body t =
     (case stripPrefix (js ''{"message":"'') t of
        None \<Rightarrow> None
      | Some after_quote \<Rightarrow>
          (case parseStringTail after_quote of
             None \<Rightarrow> None
           | Some (s, rest) \<Rightarrow> if rest = js ''}'' then Some s else None))\<close>

section \<open>A page and a host to compute on\<close>

definition example_host :: "unit host" where
  "example_host = \<lparr>numberToString = (\<lambda>_. js ''0''),
                    scrollHeight = (\<lambda>ds. 20 * length ds),
                    clientHeight = 50\<rparr>"

definition example_page :: "jsstring \<Rightarrow> page" where
  \<open>example_page v =
     \<lparr>input_value = v,
      children = [\<lparr>classList = [js ''message''], innerHTML = js ''<span class="bot">Bot:</span> Welcome''\<rparr>],
      scrollTop = 0,
      effects = []\<rparr>\<close>

section \<open>Auxiliary facts\<close>

lemma dropWhile_all_iff: "(\<forall>x\<in>set (dropWhile P xs). P x) \<longleftrightarrow> (\<forall>x\<in>set xs. P x)"
  by (induction xs) auto

lemma trim_Nil_iff: "trim s = [] \<longleftrightarrow> list_all isStrWhiteSpaceChar s"
  by (simp add: trim_def dropWhile_eq_Nil_conv dropWhile_all_iff list_all_iff)

lemma appendMessage_Str:
  \<open>appendMessage h sender (Str m) p =
     Inr (p\<lparr>children := children p @
               [\<lparr>classList = [js ''message''],
                 innerHTML = js ''<span class="'' @ sender @ js ''">'' @
                   (if sender = js ''user'' then js ''You'' else js ''Bot'') @ js '':</span> '' @ m\<rparr>],
             effects := effects p @
               [AppendChild \<lparr>classList = [js ''message''],
                 innerHTML = js ''<span class="'' @ sender @ js ''">'' @
                   (if sender = js ''user'' then js ''You'' else js ''Bot'') @ js '':</span> '' @ m\<rparr>],
             scrollTop := scrollHeight h (children p @
               [\<lparr>classList = [js ''message''],
                 innerHTML = js ''<span class="'' @ sender @ js ''">'' @
                   (if sender = js ''user'' then js ''You'' else js ''Bot'') @ js '':</span> '' @ m\<rparr>]) - clientHeight h\<rparr>)\<close>
  by (simp add: appendMessage_def appendChild_def set_scrollTop_def maxScrollTop_def Let_def)

lemma user_markup: \<open>js ''<span class="'' @ js ''user'' @ js ''">'' @ js ''You'' @ js '':</span> '' @ m = js ''<span class="user">You:</span> '' @ m\<close>
  by (simp add: js_def)

lemma bot_markup: \<open>js ''<span class="'' @ js ''bot'' @ js ''">'' @ js ''Bot'' @ js '':</span> '' @ m = js ''<span class="bot">Bot:</span> '' @ m\<close>
  by (simp add: js_def)

lemma bot_not_user: "js ''bot'' \<noteq> js ''user''"
  by (simp add: js_def)


lemma fetched_append: "fetched (xs @ ys) = fetched xs @ fetched ys"
  by (induction xs rule: fetched.induct) simp_all

lemma click_handler_blank:
  "trim (input_value p) = [] \<Longrightarrow> click_handler h p = (p, Settled Fulfilled)"
  by (simp add: click_handler_def)

lemma click_handler_send:
  \<open>trim (input_value p) \<noteq> [] \<Longrightarrow>
   click_handler h p =
     (p\<lparr>input_value := [],
        children := children p @
          [\<lparr>classList = [js ''message''],
            innerHTML = js ''<span class="user">You:</span> '' @ trim (input_value p)\<rparr>],
        scrollTop := scrollHeight h (children p @
          [\<lparr>classList = [js ''message''],
            innerHTML = js ''<span class="user">You:</span> '' @ trim (input_value p)\<rparr>]) - clientHeight h,
        effects := effects p @
          [AppendChild \<lparr>classList = [js ''message''],
             innerHTML = js ''<span class="user">You:</span> '' @ trim (input_value p)\<rparr>,
           SetInputValue [],
           Fetch \<lparr>url = js ''/chat'', http_method = js ''POST'',
                  headers = [(js ''Content-Type'', js ''application/json'')],
                  body = stringify_message (trim (input_value p))\<rparr>]\<rparr>,
      AwaitingFetch)\<close>
  by (simp add: click_handler_def appendMessage_Str user_markup set_input_value_def fetch_def Let_def)

lemma appendMessage_bot:
  \<open>appendMessage h (js ''bot'') v p =
     (case ToString (numberToString h) v of
        Inl e \<Rightarrow> Inl e
      | Inr m \<Rightarrow>
          Inr (p\<lparr>children := children p @ [\<lparr>classList = [js ''message''], innerHTML = js ''<span class="bot">Bot:</span> '' @ m\<rparr>],
                  effects := effects p @ [AppendChild \<lparr>classList = [js ''message''], innerHTML = js ''<span class="bot">Bot:</span> '' @ m\<rparr>],
                  scrollTop := scrollHeight h (children p @ [\<lparr>classList = [js ''message''], innerHTML = js ''<span class="bot">Bot:</span> '' @ m\<rparr>]) - clientHeight h\<rparr>))\<close>
  by (simp add: appendMessage_def appendChild_def set_scrollTop_def maxScrollTop_def Let_def
      bot_not_user bot_markup split: sum.splits)

lemma resume_shape:
  \<open>(\<exists>e. resume h r p = (p, Rejected e)) \<or>
   (\<exists>m. resume h r p =
      (p\<lparr>children := children p @ [\<lparr>classList = [js ''message''], innerHTML = js ''<span class="bot">Bot:</span> '' @ m\<rparr>],
         effects := effects p @ [AppendChild \<lparr>classList = [js ''message''], innerHTML = js ''<span class="bot">Bot:</span> '' @ m\<rparr>],
         scrollTop := scrollHeight h (children p @ [\<lparr>classList = [js ''message''], innerHTML = js ''<span class="bot">Bot:</span> '' @ m\<rparr>]) - clientHeight h\<rparr>, Fulfilled))\<close>
  by (auto simp: resume_def appendMessage_bot
      split: fetch_result.splits body_content.splits sum.splits)

lemma sendMessage_send:
  "trim (input_value p) \<noteq> [] \<Longrightarrow> sendMessage h r p = resume h r (fst (click_handler h p))"
  by (simp add: sendMessage_def click_handler_send)


text \<open>
  What the script quotes, a parser reads back: every code unit survives the
  quoting, and the quoted string ends where the script ends it.
\<close>

lemma nibbles: "push_bit 12 (drop_bit 12 c AND 0xF) OR push_bit 8 (drop_bit 8 c AND 0xF) OR
    push_bit 4 (drop_bit 4 c AND 0xF) OR (c AND 0xF) = (c :: 16 word)"
proof (rule bit_word_eqI)
  fix n
  assume "n < LENGTH(16)"
  then have "n < 16" by simp
  have mask: "(0xF :: 16 word) = mask 4" by (simp add: mask_eq_exp_minus_1)
  show "bit (push_bit 12 (drop_bit 12 c AND 0xF) OR push_bit 8 (drop_bit 8 c AND 0xF) OR
    push_bit 4 (drop_bit 4 c AND 0xF) OR (c AND 0xF)) n = bit c n"
  proof (cases "n < 4")
    case True
    then show ?thesis unfolding mask by (auto simp: bit_simps)
  next
    case False
    show ?thesis
    proof (cases "n < 8")
      case True
      with \<open>\<not> n < 4\<close> have "4 + (n - 4) = n" "n - 4 < 4" by simp_all
      with True \<open>\<not> n < 4\<close> show ?thesis unfolding mask by (auto simp: bit_simps)
    next
      case False
      show ?thesis
      proof (cases "n < 12")
        case True
        with \<open>\<not> n < 8\<close> have "8 + (n - 8) = n" "n - 8 < 4" by simp_all
        with True \<open>\<not> n < 8\<close> show ?thesis unfolding mask by (auto simp: bit_simps)
      next
        case False
        with \<open>n < 16\<close> have "12 + (n - 12) = n" "n - 12 < 4" by simp_all
        with False \<open>n < 16\<close> show ?thesis unfolding mask by (auto simp: bit_simps)
      qed
    qed
  qed
qed

lemma nibble_le: "(x :: 16 word) AND 0xF \<le> 0xF"
  by (rule word_and_le1)

lemma hexValue_hexDigit: "d \<le> 0xF \<Longrightarrow> hexValue (hexDigit d) = Some d"
  unfolding hexValue_def hexDigit_def
  by (auto simp: word_le_nat_alt word_less_nat_alt unat_sub_if' unat_word_ariths split: if_splits)

lemma parse_plain:
  "c \<noteq> 0x22 \<Longrightarrow> c \<noteq> 0x5C \<Longrightarrow> \<not> c < 0x20 \<Longrightarrow>
   parseStringTail (c # r) = consUnit c (parseStringTail r)"
  by simp

lemma parse_hex_escape:
  "x3 \<le> 0xF \<Longrightarrow> x2 \<le> 0xF \<Longrightarrow> x1 \<le> 0xF \<Longrightarrow> x0 \<le> 0xF \<Longrightarrow>
   parseStringTail (0x5C # 0x75 # hexDigit x3 # hexDigit x2 # hexDigit x1 # hexDigit x0 # r) =
     consUnit (push_bit 12 x3 OR push_bit 8 x2 OR push_bit 4 x1 OR x0) (parseStringTail r)"
  by (simp add: hexValue_hexDigit)

lemma parse_unicodeEscape:
  "parseStringTail (unicodeEscape c @ r) = consUnit c (parseStringTail r)"
proof -
  have "parseStringTail (unicodeEscape c @ r) =
      consUnit (push_bit 12 (drop_bit 12 c AND 0xF) OR push_bit 8 (drop_bit 8 c AND 0xF) OR
        push_bit 4 (drop_bit 4 c AND 0xF) OR (c AND 0xF)) (parseStringTail r)"
    unfolding unicodeEscape_def append.simps
    by (rule parse_hex_escape) (rule nibble_le)+
  then show ?thesis
    by (simp only: nibbles)
qed

lemma parse_quoteUnit: "parseStringTail (quoteUnit c @ r) = consUnit c (parseStringTail r)"
  by (simp add: quoteUnit_def parse_unicodeEscape unescapeUnit_def del: parseStringTail.simps)
    (simp add: unescapeUnit_def)


lemma parse_surrogate:
  "isLeadingSurrogate c \<or> isTrailingSurrogate c \<Longrightarrow>
   parseStringTail (c # r) = consUnit c (parseStringTail r)"
  by (rule parse_plain)
    (auto simp: isLeadingSurrogate_def isTrailingSurrogate_def word_le_nat_alt word_less_nat_alt)

lemma parse_quoteUnits:
  "parseStringTail (quoteUnits s @ 0x22 # r) = Some (s, r)"
proof (induction s rule: quoteUnits.induct)
  case 1
  show ?case by simp
next
  case (2 c)
  show ?case
    by (simp add: parse_quoteUnit consUnit_def del: parseStringTail.simps) simp
next
  case (3 c d cs)
  show ?case
  proof (cases "isLeadingSurrogate c \<and> isTrailingSurrogate d")
    case True
    then have pair: "quoteUnits (c # d # cs) = c # d # quoteUnits cs"
      by simp
    from True have "parseStringTail (quoteUnits cs @ 0x22 # r) = Some (cs, r)"
      by (rule "3.IH"(1))
    with True show ?thesis
      unfolding pair by (simp add: parse_surrogate consUnit_def del: parseStringTail.simps)
  next
    case False
    then have single: "quoteUnits (c # d # cs) = quoteUnit c @ quoteUnits (d # cs)"
      by auto
    from False have "parseStringTail (quoteUnits (d # cs) @ 0x22 # r) = Some (d # cs, r)"
      by (rule "3.IH"(2))
    then show ?thesis
      unfolding single by (simp add: parse_quoteUnit consUnit_def del: parseStringTail.simps)
  qed
qed

lemma stripPrefix_append: "stripPrefix xs (xs @ t) = Some t"
  by (induction xs) simp_all

lemma parse_stringify_message: "parse_message_body (stringify_message t) = Some t"
proof -
  have \<open>stringify_message t = js ''{"message":"'' @ quoteUnits t @ 0x22 # js ''}''\<close>
    by (simp add: stringify_message_def QuoteJSONString_def js_def)
  then show ?thesis
    by (simp add: parse_message_body_def stripPrefix_append parse_quoteUnits
        del: parseStringTail.simps)
qed

section \<open>The send operation\<close>

text \<open>
  Claim C1. When the content of the input field trims to the empty string
  (the field is empty or holds white space only), a click on the send control
  does nothing: the handler returns at once and the page is the page it
  started from, so no entry has been appended to the log, no request has been
  issued and the input field holds what it held. The helper
  \<open>trim_Nil_iff\<close> says that these are the strings made of white space.
\<close>

theorem blank_input_is_noop:
  assumes "trim (input_value p) = []"
  shows "click_handler h p = (p, Settled Fulfilled) \<and>
         dispatch h Click p = (p, Some (Settled Fulfilled)) \<and>
         sendMessage h r p = (p, Fulfilled)"
  using assms by (simp add: click_handler_blank click_def sendMessage_def)

theorem blank_input_is_noop_witness:
  "trim (input_value (example_page [0x20, 0x09, 0xA0, 0x3000])) = [] \<and>
   click_handler example_host (example_page [0x20, 0x09, 0xA0, 0x3000]) =
     (example_page [0x20, 0x09, 0xA0, 0x3000], Settled Fulfilled) \<and>
   sendMessage example_host NetworkFailure (example_page [0x20, 0x09, 0xA0, 0x3000]) =
     (example_page [0x20, 0x09, 0xA0, 0x3000], Fulfilled)"
proof -
  have blank: "trim (input_value (example_page [0x20, 0x09, 0xA0, 0x3000])) = []"
    by (simp add: example_page_def trim_def isStrWhiteSpaceChar_def)
  show ?thesis
    using blank blank_input_is_noop [OF blank, of example_host NetworkFailure] by simp
qed

text \<open>
  Claim C2. When the content of the input field trims to a non-empty string,
  the click handler appends one entry to the log, labelled as the user's and
  carrying the trimmed string, empties the input field, and suspends at the
  request. Over the whole send the input field stays empty and that entry is
  the only one of the user's: the log grows by it alone, or by it and one
  entry of the bot's after it.
\<close>

theorem send_echoes_and_clears:
  assumes "trim (input_value p) \<noteq> []"
  shows \<open>snd (click_handler h p) = AwaitingFetch \<and>
         children (fst (click_handler h p)) = children p @ [\<lparr>classList = [js ''message''], innerHTML = js ''<span class="user">You:</span> '' @ trim (input_value p)\<rparr>] \<and>
         input_value (fst (click_handler h p)) = [] \<and>
         input_value (fst (sendMessage h r p)) = [] \<and>
         (children (fst (sendMessage h r p)) = children p @ [\<lparr>classList = [js ''message''], innerHTML = js ''<span class="user">You:</span> '' @ trim (input_value p)\<rparr>] \<or>
          (\<exists>m. children (fst (sendMessage h r p)) = children p @ [\<lparr>classList = [js ''message''], innerHTML = js ''<span class="user">You:</span> '' @ trim (input_value p)\<rparr>, \<lparr>classList = [js ''message''], innerHTML = js ''<span class="bot">Bot:</span> '' @ m\<rparr>]))\<close>
proof -
  let ?p1 = "fst (click_handler h p)"
  have sync: "snd (click_handler h p) = AwaitingFetch"
    \<open>children ?p1 = children p @ [\<lparr>classList = [js ''message''], innerHTML = js ''<span class="user">You:</span> '' @ trim (input_value p)\<rparr>]\<close>
    "input_value ?p1 = []"
    using assms by (simp_all add: click_handler_send)
  have whole: "sendMessage h r p = resume h r ?p1"
    using assms by (rule sendMessage_send)
  from resume_shape [of h r ?p1] show ?thesis
  proof
    assume "\<exists>e. resume h r ?p1 = (?p1, Rejected e)"
    then show ?thesis using sync whole by auto
  next
    assume \<open>\<exists>m. resume h r ?p1 =
      (?p1\<lparr>children := children ?p1 @ [\<lparr>classList = [js ''message''], innerHTML = js ''<span class="bot">Bot:</span> '' @ m\<rparr>],
         effects := effects ?p1 @ [AppendChild \<lparr>classList = [js ''message''], innerHTML = js ''<span class="bot">Bot:</span> '' @ m\<rparr>],
         scrollTop := scrollHeight h (children ?p1 @ [\<lparr>classList = [js ''message''], innerHTML = js ''<span class="bot">Bot:</span> '' @ m\<rparr>]) - clientHeight h\<rparr>, Fulfilled)\<close>
    then show ?thesis using sync whole by auto
  qed
qed


theorem send_echoes_and_clears_witness:
  \<open>trim (input_value (example_page (js ''  Hello  ''))) \<noteq> [] \<and>
   snd (click_handler example_host (example_page (js ''  Hello  ''))) = AwaitingFetch \<and>
   children (fst (click_handler example_host (example_page (js ''  Hello  '')))) =
     children (example_page (js ''  Hello  '')) @
       [\<lparr>classList = [js ''message''], innerHTML = js ''<span class="user">You:</span> Hello''\<rparr>] \<and>
   input_value (fst (click_handler example_host (example_page (js ''  Hello  '')))) = []\<close>
proof -
  have trimmed: "trim (input_value (example_page (js ''  Hello  ''))) = js ''Hello''"
    by (simp add: example_page_def trim_def isStrWhiteSpaceChar_def js_def)
  have nonblank: "trim (input_value (example_page (js ''  Hello  ''))) \<noteq> []"
    by (simp add: trimmed) (simp add: js_def)
  have markup: \<open>js ''<span class="user">You:</span> '' @ js ''Hello'' = js ''<span class="user">You:</span> Hello''\<close>
    by (simp add: js_def)
  show ?thesis
    using nonblank send_echoes_and_clears [OF nonblank, of example_host NetworkFailure]
    by (simp add: trimmed markup)
qed

text \<open>
  Claim C3. When the content of the input field trims to a non-empty string
  \<open>t\<close>, the send issues one request and no other: a POST to
  \<^verbatim>\<open>/chat\<close> with the header \<^verbatim>\<open>Content-Type: application/json\<close>,
  whose body is the JSON text of the object with the one member
  \<^verbatim>\<open>message\<close>, the string \<open>t\<close> quoted. The request is there when
  the handler suspends, and the rest of the send adds none. The body is JSON
  for that object and no other: a parser reads \<open>t\<close> back from it,
  whatever quotes, backslashes, control characters or lone surrogates
  \<open>t\<close> holds. Evaluated below on the input \<^verbatim>\<open>"  Hello  "\<close>, with
  the body \<^verbatim>\<open>{"message":"Hello"}\<close>, and on an input holding a double
  quote, a backslash and a tab, each of which is escaped in the body.
\<close>

theorem send_issues_one_request:
  assumes "trim (input_value p) \<noteq> []"
  shows \<open>fetched (effects (fst (click_handler h p))) = fetched (effects p) @ [\<lparr>url = js ''/chat'', http_method = js ''POST'',
              headers = [(js ''Content-Type'', js ''application/json'')],
              body = js ''{"message":'' @ QuoteJSONString (trim (input_value p)) @ js ''}''\<rparr>] \<and>
         fetched (effects (fst (sendMessage h r p))) = fetched (effects p) @ [\<lparr>url = js ''/chat'', http_method = js ''POST'',
              headers = [(js ''Content-Type'', js ''application/json'')],
              body = js ''{"message":'' @ QuoteJSONString (trim (input_value p)) @ js ''}''\<rparr>] \<and>
         parse_message_body (body (last (fetched (effects (fst (click_handler h p)))))) =
           Some (trim (input_value p)) \<and>
         parse_message_body (body (last (fetched (effects (fst (sendMessage h r p)))))) =
           Some (trim (input_value p))\<close>
proof -
  let ?p1 = "fst (click_handler h p)"
  have sync: \<open>fetched (effects ?p1) = fetched (effects p) @ [\<lparr>url = js ''/chat'', http_method = js ''POST'',
              headers = [(js ''Content-Type'', js ''application/json'')],
              body = js ''{"message":'' @ QuoteJSONString (trim (input_value p)) @ js ''}''\<rparr>]\<close>
    using assms by (simp add: click_handler_send fetched_append stringify_message_def)
  have whole: "sendMessage h r p = resume h r ?p1"
    using assms by (rule sendMessage_send)
  have "fetched (effects (fst (resume h r ?p1))) = fetched (effects ?p1)"
    using resume_shape [of h r ?p1] by (auto simp: fetched_append)
  with whole have same: "fetched (effects (fst (sendMessage h r p))) = fetched (effects ?p1)"
    by simp
  have \<open>parse_message_body (js ''{"message":'' @ QuoteJSONString (trim (input_value p)) @ js ''}'') =
      Some (trim (input_value p))\<close>
    using parse_stringify_message [of "trim (input_value p)"]
    by (simp only: stringify_message_def)
  then have read_back: "parse_message_body (body (last (fetched (effects ?p1)))) =
      Some (trim (input_value p))"
    by (simp add: sync)
  from sync same read_back show ?thesis
    by simp
qed

theorem send_issues_one_request_witness:
  \<open>trim (input_value (example_page (js ''  Hello  ''))) \<noteq> [] \<and>
   fetched (effects (fst (sendMessage example_host NetworkFailure (example_page (js ''  Hello  ''))))) =
     [\<lparr>url = js ''/chat'', http_method = js ''POST'',
       headers = [(js ''Content-Type'', js ''application/json'')],
       body = js ''{"message":"Hello"}''\<rparr>] \<and>
   trim (input_value (example_page [0x20, 0x61, 0x22, 0x62, 0x5C, 0x63, 0x09, 0x64, 0x20])) =
     [0x61, 0x22, 0x62, 0x5C, 0x63, 0x09, 0x64] \<and>
   fetched (effects (fst (sendMessage example_host NetworkFailure
       (example_page [0x20, 0x61, 0x22, 0x62, 0x5C, 0x63, 0x09, 0x64, 0x20])))) =
     [\<lparr>url = js ''/chat'', http_method = js ''POST'',
       headers = [(js ''Content-Type'', js ''application/json'')],
       body = js ''{"message":"a'' @ [0x5C, 0x22] @ js ''b'' @ [0x5C, 0x5C] @ js ''c'' @
                [0x5C, 0x74] @ js ''d"}''\<rparr>] \<and>
   parse_message_body (js ''{"message":"a'' @ [0x5C, 0x22] @ js ''b'' @ [0x5C, 0x5C] @ js ''c'' @
       [0x5C, 0x74] @ js ''d"}'') =
     Some [0x61, 0x22, 0x62, 0x5C, 0x63, 0x09, 0x64]\<close>
proof -
  let ?plain = "example_page (js ''  Hello  '')"
  let ?tricky = "example_page [0x20, 0x61, 0x22, 0x62, 0x5C, 0x63, 0x09, 0x64, 0x20]"
  have trimmed: "trim (input_value ?plain) = js ''Hello''"
    by (simp add: example_page_def trim_def isStrWhiteSpaceChar_def js_def)
  have nonblank: "trim (input_value ?plain) \<noteq> []"
    by (simp add: trimmed) (simp add: js_def)
  have quoted: \<open>js ''{"message":'' @ QuoteJSONString (js ''Hello'') @ js ''}'' = js ''{"message":"Hello"}''\<close>
    by (simp add: js_def QuoteJSONString_def quoteUnit_def isLeadingSurrogate_def
        isTrailingSurrogate_def)
  have none_before: "fetched (effects (example_page v)) = []" for v
    by (simp add: example_page_def)
  have trimmed': "trim (input_value ?tricky) = [0x61, 0x22, 0x62, 0x5C, 0x63, 0x09, 0x64]"
    by (simp add: example_page_def trim_def isStrWhiteSpaceChar_def)
  have nonblank': "trim (input_value ?tricky) \<noteq> []"
    by (simp add: trimmed')
  have quoted': \<open>js ''{"message":'' @ QuoteJSONString [0x61, 0x22, 0x62, 0x5C, 0x63, 0x09, 0x64] @ js ''}'' =
      js ''{"message":"a'' @ [0x5C, 0x22] @ js ''b'' @ [0x5C, 0x5C] @ js ''c'' @ [0x5C, 0x74] @ js ''d"}''\<close>
    by (simp add: js_def QuoteJSONString_def quoteUnit_def isLeadingSurrogate_def
        isTrailingSurrogate_def)
  have plain: \<open>fetched (effects (fst (sendMessage example_host NetworkFailure ?plain))) =
      [\<lparr>url = js ''/chat'', http_method = js ''POST'',
        headers = [(js ''Content-Type'', js ''application/json'')],
        body = js ''{"message":"Hello"}''\<rparr>]\<close>
    using send_issues_one_request [OF nonblank, of example_host NetworkFailure]
    by (simp add: trimmed quoted none_before)
  have tricky: \<open>fetched (effects (fst (sendMessage example_host NetworkFailure ?tricky))) =
      [\<lparr>url = js ''/chat'', http_method = js ''POST'',
        headers = [(js ''Content-Type'', js ''application/json'')],
        body = js ''{"message":"a'' @ [0x5C, 0x22] @ js ''b'' @ [0x5C, 0x5C] @ js ''c'' @
                 [0x5C, 0x74] @ js ''d"}''\<rparr>]\<close>
    using send_issues_one_request [OF nonblank', of example_host NetworkFailure]
    by (simp only: trimmed' quoted' none_before append_Nil simp_thms)
  have read_back: \<open>parse_message_body (js ''{"message":"a'' @ [0x5C, 0x22] @ js ''b'' @ [0x5C, 0x5C] @ js ''c'' @
      [0x5C, 0x74] @ js ''d"}'') = Some [0x61, 0x22, 0x62, 0x5C, 0x63, 0x09, 0x64]\<close>
    using send_issues_one_request [OF nonblank', of example_host NetworkFailure]
    by (simp only: tricky trimmed' last.simps request.simps if_True simp_thms)
  from nonblank plain trimmed' tricky read_back show ?thesis
    by (intro conjI)
qed

text \<open>
  Claim C10. Within a send on an input that trims to a non-empty string, the
  steps come in this order: the user's entry is appended, then the input
  field is emptied, then the request is issued. The three are done when the
  handler suspends, before the exchange has any outcome, and they are the
  first three effects of the whole send whatever the outcome \<open>r\<close> is.
  The request is issued on a page that already shows the entry at the end of
  the log and already has the input field empty, and whose earlier effects are
  the append and the emptying; issuing it changes neither. Whatever the
  outcome, the send ends with the field empty and with the entry in the log
  right after the entries that were there.
\<close>

theorem echo_and_clear_precede_request:
  assumes "trim (input_value p) \<noteq> []"
  shows \<open>effects (fst (click_handler h p)) =
           effects p @ [AppendChild \<lparr>classList = [js ''message''], innerHTML = js ''<span class="user">You:</span> '' @ trim (input_value p)\<rparr>, SetInputValue [], Fetch \<lparr>url = js ''/chat'', http_method = js ''POST'',
              headers = [(js ''Content-Type'', js ''application/json'')],
              body = js ''{"message":'' @ QuoteJSONString (trim (input_value p)) @ js ''}''\<rparr>] \<and>
         take (length (effects p) + 3) (effects (fst (sendMessage h r p))) =
           effects p @ [AppendChild \<lparr>classList = [js ''message''], innerHTML = js ''<span class="user">You:</span> '' @ trim (input_value p)\<rparr>, SetInputValue [], Fetch \<lparr>url = js ''/chat'', http_method = js ''POST'',
              headers = [(js ''Content-Type'', js ''application/json'')],
              body = js ''{"message":'' @ QuoteJSONString (trim (input_value p)) @ js ''}''\<rparr>] \<and>
         (\<exists>p2. fst (click_handler h p) = fetch \<lparr>url = js ''/chat'', http_method = js ''POST'',
              headers = [(js ''Content-Type'', js ''application/json'')],
              body = js ''{"message":'' @ QuoteJSONString (trim (input_value p)) @ js ''}''\<rparr> p2 \<and>
            children p2 = children p @ [\<lparr>classList = [js ''message''], innerHTML = js ''<span class="user">You:</span> '' @ trim (input_value p)\<rparr>] \<and>
            input_value p2 = [] \<and>
            effects p2 = effects p @ [AppendChild \<lparr>classList = [js ''message''], innerHTML = js ''<span class="user">You:</span> '' @ trim (input_value p)\<rparr>, SetInputValue []]) \<and>
         snd (click_handler h p) = AwaitingFetch \<and>
         children (fst (click_handler h p)) = children p @ [\<lparr>classList = [js ''message''], innerHTML = js ''<span class="user">You:</span> '' @ trim (input_value p)\<rparr>] \<and>
         input_value (fst (click_handler h p)) = [] \<and>
         take (Suc (length (children p))) (children (fst (sendMessage h r p))) = children p @ [\<lparr>classList = [js ''message''], innerHTML = js ''<span class="user">You:</span> '' @ trim (input_value p)\<rparr>] \<and>
         input_value (fst (sendMessage h r p)) = []\<close>
proof -
  let ?p1 = "fst (click_handler h p)"
  have sync: \<open>effects ?p1 = effects p @ [AppendChild \<lparr>classList = [js ''message''], innerHTML = js ''<span class="user">You:</span> '' @ trim (input_value p)\<rparr>, SetInputValue [], Fetch \<lparr>url = js ''/chat'', http_method = js ''POST'',
              headers = [(js ''Content-Type'', js ''application/json'')],
              body = js ''{"message":'' @ QuoteJSONString (trim (input_value p)) @ js ''}''\<rparr>]\<close>
    using assms by (simp add: click_handler_send stringify_message_def)
  then have len: "length (effects ?p1) = length (effects p) + 3"
    by simp
  have whole: "sendMessage h r p = resume h r ?p1"
    using assms by (rule sendMessage_send)
  have "take (length (effects ?p1)) (effects (fst (resume h r ?p1))) = effects ?p1"
    using resume_shape [of h r ?p1] by auto
  then have "take (length (effects p) + 3) (effects (fst (sendMessage h r p))) = effects ?p1"
    by (simp only: len whole)
  then have trace: \<open>take (length (effects p) + 3) (effects (fst (sendMessage h r p))) =
      effects p @ [AppendChild \<lparr>classList = [js ''message''], innerHTML = js ''<span class="user">You:</span> '' @ trim (input_value p)\<rparr>, SetInputValue [], Fetch \<lparr>url = js ''/chat'', http_method = js ''POST'',
              headers = [(js ''Content-Type'', js ''application/json'')],
              body = js ''{"message":'' @ QuoteJSONString (trim (input_value p)) @ js ''}''\<rparr>]\<close>
    by (simp only: sync)
  have suspended: "snd (click_handler h p) = AwaitingFetch"
    \<open>children ?p1 = children p @ [\<lparr>classList = [js ''message''], innerHTML = js ''<span class="user">You:</span> '' @ trim (input_value p)\<rparr>]\<close>
    "input_value ?p1 = []"
    using assms by (simp_all add: click_handler_send)
  obtain p1 where echoed: "appendMessage h (js ''user'') (Str (trim (input_value p))) p = Inr p1"
    and shown: \<open>children p1 = children p @ [\<lparr>classList = [js ''message''], innerHTML = js ''<span class="user">You:</span> '' @ trim (input_value p)\<rparr>]\<close>
    and logged: \<open>effects p1 = effects p @ [AppendChild \<lparr>classList = [js ''message''], innerHTML = js ''<span class="user">You:</span> '' @ trim (input_value p)\<rparr>]\<close>
    by (simp add: appendMessage_Str user_markup)
  let ?p2 = "set_input_value [] p1"
  have issued_on: \<open>?p1 = fetch \<lparr>url = js ''/chat'', http_method = js ''POST'',
              headers = [(js ''Content-Type'', js ''application/json'')],
              body = js ''{"message":'' @ QuoteJSONString (trim (input_value p)) @ js ''}''\<rparr> ?p2\<close>
    using assms by (simp add: click_handler_def echoed stringify_message_def Let_def)
  have before_request: \<open>children ?p2 = children p @ [\<lparr>classList = [js ''message''], innerHTML = js ''<span class="user">You:</span> '' @ trim (input_value p)\<rparr>]\<close> "input_value ?p2 = []"
    \<open>effects ?p2 = effects p @ [AppendChild \<lparr>classList = [js ''message''], innerHTML = js ''<span class="user">You:</span> '' @ trim (input_value p)\<rparr>, SetInputValue []]\<close>
    by (simp_all add: set_input_value_def shown logged)
  from issued_on before_request
  have state: \<open>\<exists>p2. ?p1 = fetch \<lparr>url = js ''/chat'', http_method = js ''POST'',
              headers = [(js ''Content-Type'', js ''application/json'')],
              body = js ''{"message":'' @ QuoteJSONString (trim (input_value p)) @ js ''}''\<rparr> p2 \<and>
      children p2 = children p @ [\<lparr>classList = [js ''message''], innerHTML = js ''<span class="user">You:</span> '' @ trim (input_value p)\<rparr>] \<and>
      input_value p2 = [] \<and>
      effects p2 = effects p @ [AppendChild \<lparr>classList = [js ''message''], innerHTML = js ''<span class="user">You:</span> '' @ trim (input_value p)\<rparr>, SetInputValue []]\<close>
    by blast
  have "take (length (children ?p1)) (children (fst (resume h r ?p1))) = children ?p1"
    "input_value (fst (resume h r ?p1)) = input_value ?p1"
    using resume_shape [of h r ?p1] by auto
  then have after: \<open>take (Suc (length (children p))) (children (fst (sendMessage h r p))) =
      children p @ [\<lparr>classList = [js ''message''], innerHTML = js ''<span class="user">You:</span> '' @ trim (input_value p)\<rparr>]\<close>
    "input_value (fst (sendMessage h r p)) = []"
    by (simp_all add: whole suspended)
  from sync trace state suspended after show ?thesis
    by (intro conjI)
qed

theorem echo_and_clear_precede_request_witness:
  \<open>trim (input_value (example_page (js ''  Hello  ''))) \<noteq> [] \<and>
   effects (fst (sendMessage example_host (Response 200 (Json (Obj [(js ''response'', Str (js ''Hi there''))])))
     (example_page (js ''  Hello  '')))) =
     [AppendChild \<lparr>classList = [js ''message''], innerHTML = js ''<span class="user">You:</span> Hello''\<rparr>,
      SetInputValue [],
      Fetch \<lparr>url = js ''/chat'', http_method = js ''POST'',
              headers = [(js ''Content-Type'', js ''application/json'')],
              body = js ''{"message":"Hello"}''\<rparr>,
      AppendChild \<lparr>classList = [js ''message''], innerHTML = js ''<span class="bot">Bot:</span> Hi there''\<rparr>] \<and>
   children (fst (click_handler example_host (example_page (js ''  Hello  '')))) =
     [\<lparr>classList = [js ''message''], innerHTML = js ''<span class="bot">Bot:</span> Welcome''\<rparr>,
      \<lparr>classList = [js ''message''], innerHTML = js ''<span class="user">You:</span> Hello''\<rparr>] \<and>
   input_value (example_page (js ''  Hello  '')) \<noteq> [] \<and>
   input_value (fst (click_handler example_host (example_page (js ''  Hello  '')))) = [] \<and>
   input_value (fst (sendMessage example_host NetworkFailure (example_page (js ''  Hello  '')))) = []\<close>
proof -
  let ?page = "example_page (js ''  Hello  '')"
  have trimmed: "trim (input_value ?page) = js ''Hello''"
    by (simp add: example_page_def trim_def isStrWhiteSpaceChar_def js_def)
  have nonblank: "trim (input_value ?page) \<noteq> []"
    by (simp add: trimmed) (simp add: js_def)
  have quoted: \<open>js ''{"message":'' @ QuoteJSONString (js ''Hello'') @ js ''}'' = js ''{"message":"Hello"}''\<close>
    by (simp add: js_def QuoteJSONString_def quoteUnit_def isLeadingSurrogate_def
        isTrailingSurrogate_def)
  have user_entry: \<open>js ''<span class="user">You:</span> '' @ js ''Hello'' = js ''<span class="user">You:</span> Hello''\<close>
    by (simp add: js_def)
  have bot_entry: \<open>js ''<span class="bot">Bot:</span> '' @ js ''Hi there'' = js ''<span class="bot">Bot:</span> Hi there''\<close>
    by (simp add: js_def)
  have empty_before: "effects ?page = []"
    by (simp add: example_page_def)
  have log_before: \<open>children ?page =
      [\<lparr>classList = [js ''message''], innerHTML = js ''<span class="bot">Bot:</span> Welcome''\<rparr>]\<close>
    by (simp add: example_page_def)
  have field_before: "input_value ?page \<noteq> []"
    by (simp add: example_page_def js_def)
  note at_hello = echo_and_clear_precede_request [OF nonblank, of example_host NetworkFailure]
  have sync: \<open>effects (fst (click_handler example_host ?page)) =
      [AppendChild \<lparr>classList = [js ''message''], innerHTML = js ''<span class="user">You:</span> Hello''\<rparr>,
       SetInputValue [],
       Fetch \<lparr>url = js ''/chat'', http_method = js ''POST'',
               headers = [(js ''Content-Type'', js ''application/json'')],
               body = js ''{"message":"Hello"}''\<rparr>]\<close>
    using at_hello by (simp add: trimmed quoted user_entry empty_before)
  have shown: \<open>children (fst (click_handler example_host ?page)) =
      [\<lparr>classList = [js ''message''], innerHTML = js ''<span class="bot">Bot:</span> Welcome''\<rparr>,
       \<lparr>classList = [js ''message''], innerHTML = js ''<span class="user">You:</span> Hello''\<rparr>]\<close>
    using at_hello by (simp add: trimmed user_entry log_before)
  have cleared: "input_value (fst (click_handler example_host ?page)) = []"
    "input_value (fst (sendMessage example_host NetworkFailure ?page)) = []"
    using at_hello by simp_all
  have whole: \<open>effects (fst (sendMessage example_host
        (Response 200 (Json (Obj [(js ''response'', Str (js ''Hi there''))]))) ?page)) =
      [AppendChild \<lparr>classList = [js ''message''], innerHTML = js ''<span class="user">You:</span> Hello''\<rparr>,
       SetInputValue [],
       Fetch \<lparr>url = js ''/chat'', http_method = js ''POST'',
               headers = [(js ''Content-Type'', js ''application/json'')],
               body = js ''{"message":"Hello"}''\<rparr>,
       AppendChild \<lparr>classList = [js ''message''], innerHTML = js ''<span class="bot">Bot:</span> Hi there''\<rparr>]\<close>
    using sync
    by (simp add: sendMessage_send [OF nonblank] resume_def appendMessage_bot bot_entry)
  from nonblank whole shown field_before cleared show ?thesis
    by (intro conjI)
qed

section \<open>Rendering\<close>

text \<open>
  Claim C7. For the sender \<^verbatim>\<open>user\<close> and for the sender
  \<^verbatim>\<open>bot\<close>, and for every string \<open>t\<close>, \<^verbatim>\<open>appendMessage\<close>
  succeeds and appends one entry to the log. The markup of the entry is a
  \<^verbatim>\<open>span\<close> holding the label, \<^verbatim>\<open>You:\<close> for the user and
  \<^verbatim>\<open>Bot:\<close> for the bot, followed by \<open>t\<close> as it is: no character of
  \<open>t\<close> is escaped or left out, so what reaches the host's markup parser
  through \<^verbatim>\<open>innerHTML\<close> is \<open>t\<close> itself. For
  \<^verbatim>\<open><b>hi</b>\<close> the markup assigned ends in the element
  \<^verbatim>\<open><b>hi</b>\<close>, not in its escaped text.
\<close>

theorem appendMessage_labels_and_interpolates:
  \<open>(\<exists>p'. appendMessage h (js ''user'') (Str t) p = Inr p' \<and>
      children p' = children p @
        [\<lparr>classList = [js ''message''], innerHTML = js ''<span class="user">You:</span> '' @ t\<rparr>]) \<and>
   (\<exists>p'. appendMessage h (js ''bot'') (Str t) p = Inr p' \<and>
      children p' = children p @
        [\<lparr>classList = [js ''message''], innerHTML = js ''<span class="bot">Bot:</span> '' @ t\<rparr>])\<close>
proof
  show \<open>\<exists>p'. appendMessage h (js ''user'') (Str t) p = Inr p' \<and>
      children p' = children p @
        [\<lparr>classList = [js ''message''], innerHTML = js ''<span class="user">You:</span> '' @ t\<rparr>]\<close>
    by (simp add: appendMessage_Str user_markup)
next
  show \<open>\<exists>p'. appendMessage h (js ''bot'') (Str t) p = Inr p' \<and>
      children p' = children p @
        [\<lparr>classList = [js ''message''], innerHTML = js ''<span class="bot">Bot:</span> '' @ t\<rparr>]\<close>
    by (simp add: appendMessage_bot)
qed

theorem appendMessage_labels_and_interpolates_witness:
  \<open>\<exists>p'. appendMessage example_host (js ''bot'') (Str (js ''<b>hi</b>'')) (example_page []) = Inr p' \<and>
      children p' =
        [\<lparr>classList = [js ''message''], innerHTML = js ''<span class="bot">Bot:</span> Welcome''\<rparr>,
         \<lparr>classList = [js ''message''], innerHTML = js ''<span class="bot">Bot:</span> <b>hi</b>''\<rparr>] \<and>
      innerHTML (last (children p')) \<noteq> js ''<span class="bot">Bot:</span> &lt;b&gt;hi&lt;/b&gt;''\<close>
proof -
  have markup: \<open>js ''<span class="bot">Bot:</span> '' @ js ''<b>hi</b>'' = js ''<span class="bot">Bot:</span> <b>hi</b>''\<close>
    by (simp add: js_def)
  have unescaped: \<open>js ''<span class="bot">Bot:</span> <b>hi</b>'' \<noteq> js ''<span class="bot">Bot:</span> &lt;b&gt;hi&lt;/b&gt;''\<close>
    by (simp add: js_def)
  have before: \<open>children (example_page []) =
      [\<lparr>classList = [js ''message''], innerHTML = js ''<span class="bot">Bot:</span> Welcome''\<rparr>]\<close>
    by (simp add: example_page_def)
  from appendMessage_labels_and_interpolates [of example_host "js ''<b>hi</b>''" "example_page []"]
  obtain p' where
    "appendMessage example_host (js ''bot'') (Str (js ''<b>hi</b>'')) (example_page []) = Inr p'"
    \<open>children p' = children (example_page []) @
      [\<lparr>classList = [js ''message''], innerHTML = js ''<span class="bot">Bot:</span> '' @ js ''<b>hi</b>''\<rparr>]\<close>
    by blast
  then show ?thesis
    using unescaped by (simp add: markup before)
qed

text \<open>
  Claim C8. Whenever \<^verbatim>\<open>appendMessage\<close> appends an entry, the log's
  scroll offset afterwards is the largest offset its content allows: the
  script asks for the full content height and the host clamps the request.
  So after a send on an input that trims to a non-empty string, whatever the
  outcome \<open>r\<close> of the exchange, the log is scrolled to the bottom: the
  last append of the send was the last thing to change the log.
\<close>

theorem log_scrolled_to_bottom:
  \<open>(\<forall>p'. appendMessage h sender v p = Inr p' \<longrightarrow> scrollTop p' = maxScrollTop h p') \<and>
   (trim (input_value p) \<noteq> [] \<longrightarrow>
      scrollTop (fst (sendMessage h r p)) = maxScrollTop h (fst (sendMessage h r p)))\<close>
proof (intro conjI allI impI)
  fix p'
  assume "appendMessage h sender v p = Inr p'"
  then show "scrollTop p' = maxScrollTop h p'"
    by (auto simp: appendMessage_def appendChild_def set_scrollTop_def maxScrollTop_def Let_def
        split: sum.splits)
next
  assume nonblank: "trim (input_value p) \<noteq> []"
  let ?p1 = "fst (click_handler h p)"
  have sync: "scrollTop ?p1 = maxScrollTop h ?p1"
    using nonblank by (simp add: click_handler_send maxScrollTop_def)
  have whole: "sendMessage h r p = resume h r ?p1"
    using nonblank by (rule sendMessage_send)
  have "scrollTop (fst (resume h r ?p1)) = maxScrollTop h (fst (resume h r ?p1))"
    using resume_shape [of h r ?p1] sync by (auto simp: maxScrollTop_def)
  with whole show "scrollTop (fst (sendMessage h r p)) = maxScrollTop h (fst (sendMessage h r p))"
    by simp
qed

theorem log_scrolled_to_bottom_witness:
  \<open>(\<exists>p'. appendMessage example_host (js ''bot'') (Str (js ''one'')) (example_page []) = Inr p') \<and>
   trim (input_value (example_page (js ''two three''))) \<noteq> [] \<and>
   scrollTop (fst (sendMessage example_host (Response 200 (Json (Str (js ''four''))))
     (example_page (js ''two three'')))) = 10 \<and>
   scrollTop (fst (sendMessage example_host NetworkFailure (example_page (js ''two three'')))) = 0\<close>
proof -
  have appended: "\<exists>p'. appendMessage example_host (js ''bot'') (Str (js ''one'')) (example_page []) = Inr p'"
    by (simp add: appendMessage_bot)
  have nonblank: "trim (input_value (example_page (js ''two three''))) \<noteq> []"
    by (simp add: example_page_def trim_def isStrWhiteSpaceChar_def js_def)
  have lengths:
    "length (children (fst (sendMessage example_host (Response 200 (Json (Str (js ''four''))))
       (example_page (js ''two three''))))) = 3"
    "length (children (fst (sendMessage example_host NetworkFailure (example_page (js ''two three''))))) = 2"
    by (simp_all add: sendMessage_send [OF nonblank] click_handler_send [OF nonblank]
        resume_def appendMessage_bot)
      (simp_all add: example_page_def)
  have bottom: "maxScrollTop example_host q = 20 * length (children q) - 50" for q
    by (simp add: maxScrollTop_def example_host_def)
  show ?thesis
    using appended nonblank
      log_scrolled_to_bottom [of example_host "js ''bot''" "Str (js ''one'')" "example_page (js ''two three'')"
        "Response 200 (Json (Str (js ''four'')))"]
      log_scrolled_to_bottom [of example_host "js ''bot''" "Str (js ''one'')" "example_page (js ''two three'')"
        NetworkFailure]
    by (simp add: bottom lengths)
qed

section \<open>The two triggers\<close>

text \<open>
  Claim C9. On every page, a press of the Enter key in the input field does
  what a click on the send control does: the two leave the same page and start
  the same invocation of the click handler, which then runs on in the same
  way. The witness is a page whose input field holds \<^verbatim>\<open>Hello\<close>.
\<close>

theorem enter_is_click:
  "dispatch h (Keypress (js ''Enter'')) p = dispatch h Click p"
  by (simp add: keypress_handler_def)

theorem enter_is_click_witness:
  \<open>dispatch example_host (Keypress (js ''Enter'')) (example_page (js ''Hello'')) =
     (fst (click_handler example_host (example_page (js ''Hello''))), Some AwaitingFetch) \<and>
   dispatch example_host (Keypress (js ''a'')) (example_page (js ''Hello'')) =
     (example_page (js ''Hello''), None)\<close>
proof -
  have nonblank: "trim (input_value (example_page (js ''Hello''))) \<noteq> []"
    by (simp add: example_page_def trim_def isStrWhiteSpaceChar_def js_def)
  have "dispatch example_host (Keypress (js ''Enter'')) (example_page (js ''Hello'')) =
      dispatch example_host Click (example_page (js ''Hello''))"
    by (rule enter_is_click)
  also have "\<dots> = (fst (click_handler example_host (example_page (js ''Hello''))), Some AwaitingFetch)"
    by (simp add: click_def click_handler_send [OF nonblank])
  finally have enter: "dispatch example_host (Keypress (js ''Enter'')) (example_page (js ''Hello'')) =
      (fst (click_handler example_host (example_page (js ''Hello''))), Some AwaitingFetch)" .
  have "js ''a'' \<noteq> js ''Enter''"
    by (simp add: js_def)
  then have other: "dispatch example_host (Keypress (js ''a'')) (example_page (js ''Hello'')) =
      (example_page (js ''Hello''), None)"
    by (simp add: keypress_handler_def)
  from enter other show ?thesis ..
qed

section \<open>The reply\<close>

text \<open>
  Claim C6. When the content of the input field trims to \<^verbatim>\<open>Hello\<close>
  and the response's body is the JSON object whose one member
  \<^verbatim>\<open>response\<close> is the string \<^verbatim>\<open>Hi there\<close>, the send
  completes and leaves the log longer by two entries, in this order: the
  user's \<^verbatim>\<open>Hello\<close>, then the bot's \<^verbatim>\<open>Hi there\<close>. The status
  \<open>st\<close> of the response plays no part.
\<close>

theorem hello_then_hi_there:
  assumes "trim (input_value p) = js ''Hello''"
  shows \<open>snd (sendMessage h (Response st (Json (Obj [(js ''response'', Str (js ''Hi there''))]))) p) = Fulfilled \<and>
         children (fst (sendMessage h (Response st (Json (Obj [(js ''response'', Str (js ''Hi there''))]))) p)) =
           children p @
             [\<lparr>classList = [js ''message''], innerHTML = js ''<span class="user">You:</span> Hello''\<rparr>,
              \<lparr>classList = [js ''message''], innerHTML = js ''<span class="bot">Bot:</span> Hi there''\<rparr>]\<close>
proof -
  have nonblank: "trim (input_value p) \<noteq> []"
    by (simp add: assms) (simp add: js_def)
  have user_entry: \<open>js ''<span class="user">You:</span> '' @ js ''Hello'' = js ''<span class="user">You:</span> Hello''\<close>
    by (simp add: js_def)
  have bot_entry: \<open>js ''<span class="bot">Bot:</span> '' @ js ''Hi there'' = js ''<span class="bot">Bot:</span> Hi there''\<close>
    by (simp add: js_def)
  have sync: \<open>children (fst (click_handler h p)) =
      children p @ [\<lparr>classList = [js ''message''], innerHTML = js ''<span class="user">You:</span> Hello''\<rparr>]\<close>
    by (simp add: click_handler_send [OF nonblank]) (simp add: assms user_entry)
  show ?thesis
    by (simp add: sendMessage_send [OF nonblank] resume_def appendMessage_bot bot_entry sync)
qed

theorem hello_then_hi_there_witness:
  \<open>trim (input_value (example_page (js ''  Hello  ''))) = js ''Hello'' \<and>
   children (fst (sendMessage example_host
       (Response 200 (Json (Obj [(js ''response'', Str (js ''Hi there''))])))
       (example_page (js ''  Hello  '')))) =
     [\<lparr>classList = [js ''message''], innerHTML = js ''<span class="bot">Bot:</span> Welcome''\<rparr>,
      \<lparr>classList = [js ''message''], innerHTML = js ''<span class="user">You:</span> Hello''\<rparr>,
      \<lparr>classList = [js ''message''], innerHTML = js ''<span class="bot">Bot:</span> Hi there''\<rparr>]\<close>
proof -
  have trimmed: "trim (input_value (example_page (js ''  Hello  ''))) = js ''Hello''"
    by (simp add: example_page_def trim_def isStrWhiteSpaceChar_def js_def)
  have before: \<open>children (example_page (js ''  Hello  '')) =
      [\<lparr>classList = [js ''message''], innerHTML = js ''<span class="bot">Bot:</span> Welcome''\<rparr>]\<close>
    by (simp add: example_page_def)
  show ?thesis
    using trimmed hello_then_hi_there [OF trimmed, of example_host 200]
    by (simp add: before)
qed

text \<open>
  Claim C4, as amended. The handler has no failure branch, and three outcomes
  of the exchange stop it: the request fails on the network, the body of the
  response is not JSON text, or the body is the JSON value
  \<^verbatim>\<open>null\<close>, whose reply field cannot be read. For each of them, on
  whatever page the outcome arrives, the handler's promise is rejected and the
  page is left as it is; so a send on an input that trims to a non-empty
  string ends with the user's entry as the only new one: no entry of the
  bot's, no sign of the failure.
\<close>

theorem failure_is_not_recovered:
  assumes "trim (input_value p) \<noteq> []"
    and "r = NetworkFailure \<or> r = Response st NotJson \<or> r = Response st (Json Null)"
  shows \<open>(\<forall>q. \<exists>e. resume h r q = (q, Rejected e)) \<and>
         (\<exists>e. sendMessage h r p = (fst (click_handler h p), Rejected e)) \<and>
         children (fst (sendMessage h r p)) = children p @ [\<lparr>classList = [js ''message''], innerHTML = js ''<span class="user">You:</span> '' @ trim (input_value p)\<rparr>]\<close>
proof -
  have stops: "\<exists>e. resume h r q = (q, Rejected e)" for q
    using assms(2) by (auto simp: resume_def)
  have whole: "sendMessage h r p = resume h r (fst (click_handler h p))"
    using assms(1) by (rule sendMessage_send)
  from stops [of "fst (click_handler h p)"] obtain e
    where rejected: "sendMessage h r p = (fst (click_handler h p), Rejected e)"
    unfolding whole by blast
  have \<open>children (fst (sendMessage h r p)) = children p @ [\<lparr>classList = [js ''message''], innerHTML = js ''<span class="user">You:</span> '' @ trim (input_value p)\<rparr>]\<close>
    by (simp add: rejected) (simp add: click_handler_send [OF assms(1)])
  with stops rejected show ?thesis by blast
qed

theorem failure_is_not_recovered_witness:
  \<open>trim (input_value (example_page (js ''Hello''))) \<noteq> [] \<and>
   (\<exists>e. sendMessage example_host (Response 404 NotJson) (example_page (js ''Hello'')) =
      (fst (click_handler example_host (example_page (js ''Hello''))), Rejected e)) \<and>
   children (fst (sendMessage example_host (Response 404 NotJson) (example_page (js ''Hello'')))) =
     [\<lparr>classList = [js ''message''], innerHTML = js ''<span class="bot">Bot:</span> Welcome''\<rparr>,
      \<lparr>classList = [js ''message''], innerHTML = js ''<span class="user">You:</span> Hello''\<rparr>]\<close>
proof -
  have trimmed: "trim (input_value (example_page (js ''Hello''))) = js ''Hello''"
    by (simp add: example_page_def trim_def isStrWhiteSpaceChar_def js_def)
  have nonblank: "trim (input_value (example_page (js ''Hello''))) \<noteq> []"
    by (simp add: trimmed) (simp add: js_def)
  have outcome: "Response 404 NotJson = NetworkFailure \<or> Response 404 NotJson = Response 404 NotJson \<or>
      Response 404 NotJson = (Response 404 (Json Null) :: unit fetch_result)"
    by simp
  have before: \<open>children (example_page (js ''Hello'')) =
      [\<lparr>classList = [js ''message''], innerHTML = js ''<span class="bot">Bot:</span> Welcome''\<rparr>]\<close>
    by (simp add: example_page_def)
  have user_entry: \<open>js ''<span class="user">You:</span> '' @ js ''Hello'' = js ''<span class="user">You:</span> Hello''\<close>
    by (simp add: js_def)
  show ?thesis
    using nonblank failure_is_not_recovered [OF nonblank outcome, of example_host]
    by (simp add: trimmed before user_entry)
qed

text \<open>
  Claim C4 as the specification states it fails twice. A response with status
  500 whose body is a JSON object with the reply is handled like any other:
  the bot's entry is appended and the handler's promise is fulfilled. And a
  response whose body is the empty JSON object, which lacks the reply field, is
  no failure either: the bot's entry is appended, reading
  \<^verbatim>\<open>undefined\<close>.
\<close>

theorem status_and_missing_field_do_not_stop_the_reply:
  \<open>snd (sendMessage example_host (Response 500 (Json (Obj [(js ''response'', Str (js ''Hi there''))])))
     (example_page (js ''Hello''))) = Fulfilled \<and>
   children (fst (sendMessage example_host (Response 500 (Json (Obj [(js ''response'', Str (js ''Hi there''))])))
     (example_page (js ''Hello'')))) =
     [\<lparr>classList = [js ''message''], innerHTML = js ''<span class="bot">Bot:</span> Welcome''\<rparr>,
      \<lparr>classList = [js ''message''], innerHTML = js ''<span class="user">You:</span> Hello''\<rparr>,
      \<lparr>classList = [js ''message''], innerHTML = js ''<span class="bot">Bot:</span> Hi there''\<rparr>] \<and>
   snd (sendMessage example_host (Response 200 (Json (Obj []))) (example_page (js ''Hello''))) = Fulfilled \<and>
   children (fst (sendMessage example_host (Response 200 (Json (Obj []))) (example_page (js ''Hello'')))) =
     [\<lparr>classList = [js ''message''], innerHTML = js ''<span class="bot">Bot:</span> Welcome''\<rparr>,
      \<lparr>classList = [js ''message''], innerHTML = js ''<span class="user">You:</span> Hello''\<rparr>,
      \<lparr>classList = [js ''message''], innerHTML = js ''<span class="bot">Bot:</span> undefined''\<rparr>]\<close>
proof -
  have trimmed: "trim (input_value (example_page (js ''Hello''))) = js ''Hello''"
    by (simp add: example_page_def trim_def isStrWhiteSpaceChar_def js_def)
  have nonblank: "trim (input_value (example_page (js ''Hello''))) \<noteq> []"
    by (simp add: trimmed) (simp add: js_def)
  have entries:
    \<open>js ''<span class="user">You:</span> '' @ js ''Hello'' = js ''<span class="user">You:</span> Hello''\<close>
    \<open>js ''<span class="bot">Bot:</span> '' @ js ''Hi there'' = js ''<span class="bot">Bot:</span> Hi there''\<close>
    \<open>js ''<span class="bot">Bot:</span> '' @ js ''undefined'' = js ''<span class="bot">Bot:</span> undefined''\<close>
    by (simp_all add: js_def)
  have sync: \<open>children (fst (click_handler example_host (example_page (js ''Hello'')))) =
      [\<lparr>classList = [js ''message''], innerHTML = js ''<span class="bot">Bot:</span> Welcome''\<rparr>,
       \<lparr>classList = [js ''message''], innerHTML = js ''<span class="user">You:</span> Hello''\<rparr>]\<close>
    by (simp add: click_handler_send [OF nonblank] trimmed entries) (simp add: example_page_def)
  show ?thesis
    by (simp add: sendMessage_send [OF nonblank] resume_def appendMessage_bot sync entries)
qed

text \<open>
  Claim C5, as amended. When the body of the response is a JSON value other
  than \<^verbatim>\<open>null\<close> that has no reply field (an object without a member
  \<^verbatim>\<open>response\<close>, or a string, a number, a boolean or an array), reading
  the field yields \<^verbatim>\<open>undefined\<close> and the handler goes on: on whatever
  page the body arrives it appends an entry of the bot's reading
  \<^verbatim>\<open>undefined\<close>, and its promise is fulfilled, so nothing signals the
  missing field. A send on an input that trims to a non-empty string ends
  with the user's entry followed by that one.
\<close>

theorem missing_reply_renders_undefined:
  assumes "trim (input_value p) \<noteq> []"
    and "data \<noteq> Null" and "data \<noteq> Undefined"
    and "\<forall>props. data = Obj props \<longrightarrow> map_of props (js ''response'') = None"
  shows \<open>(\<forall>q. \<exists>q'. resume h (Response st (Json data)) q = (q', Fulfilled) \<and>
            children q' = children q @
              [\<lparr>classList = [js ''message''], innerHTML = js ''<span class="bot">Bot:</span> undefined''\<rparr>]) \<and>
         snd (sendMessage h (Response st (Json data)) p) = Fulfilled \<and>
         children (fst (sendMessage h (Response st (Json data)) p)) =
           children p @
             [\<lparr>classList = [js ''message''], innerHTML = js ''<span class="user">You:</span> '' @ trim (input_value p)\<rparr>,
              \<lparr>classList = [js ''message''], innerHTML = js ''<span class="bot">Bot:</span> undefined''\<rparr>]\<close>
proof -
  have missing: "get_response data = Inr Undefined"
    using assms(2-4) by (cases data) simp_all
  have bot_entry: \<open>js ''<span class="bot">Bot:</span> '' @ js ''undefined'' = js ''<span class="bot">Bot:</span> undefined''\<close>
    by (simp add: js_def)
  have goes_on: \<open>\<exists>q'. resume h (Response st (Json data)) q = (q', Fulfilled) \<and>
      children q' = children q @
        [\<lparr>classList = [js ''message''], innerHTML = js ''<span class="bot">Bot:</span> undefined''\<rparr>]\<close> for q
    by (simp add: resume_def missing appendMessage_bot bot_entry)
  have whole: "sendMessage h (Response st (Json data)) p =
      resume h (Response st (Json data)) (fst (click_handler h p))"
    using assms(1) by (rule sendMessage_send)
  have sync: \<open>children (fst (click_handler h p)) = children p @ [\<lparr>classList = [js ''message''], innerHTML = js ''<span class="user">You:</span> '' @ trim (input_value p)\<rparr>]\<close>
    by (simp add: click_handler_send [OF assms(1)])
  from goes_on [of "fst (click_handler h p)"] obtain q'
    where "sendMessage h (Response st (Json data)) p = (q', Fulfilled)"
      and \<open>children q' = children (fst (click_handler h p)) @
        [\<lparr>classList = [js ''message''], innerHTML = js ''<span class="bot">Bot:</span> undefined''\<rparr>]\<close>
    unfolding whole by blast
  then have \<open>snd (sendMessage h (Response st (Json data)) p) = Fulfilled \<and>
      children (fst (sendMessage h (Response st (Json data)) p)) =
        children p @
          [\<lparr>classList = [js ''message''], innerHTML = js ''<span class="user">You:</span> '' @ trim (input_value p)\<rparr>,
           \<lparr>classList = [js ''message''], innerHTML = js ''<span class="bot">Bot:</span> undefined''\<rparr>]\<close>
    by (simp add: sync)
  with goes_on show ?thesis by blast
qed

theorem missing_reply_renders_undefined_witness:
  \<open>trim (input_value (example_page (js ''Hello''))) \<noteq> [] \<and>
   snd (sendMessage example_host (Response 200 (Json (Obj [(js ''reply'', Str (js ''Hi there''))])))
     (example_page (js ''Hello''))) = Fulfilled \<and>
   children (fst (sendMessage example_host (Response 200 (Json (Obj [(js ''reply'', Str (js ''Hi there''))])))
     (example_page (js ''Hello'')))) =
     [\<lparr>classList = [js ''message''], innerHTML = js ''<span class="bot">Bot:</span> Welcome''\<rparr>,
      \<lparr>classList = [js ''message''], innerHTML = js ''<span class="user">You:</span> Hello''\<rparr>,
      \<lparr>classList = [js ''message''], innerHTML = js ''<span class="bot">Bot:</span> undefined''\<rparr>]\<close>
proof -
  have trimmed: "trim (input_value (example_page (js ''Hello''))) = js ''Hello''"
    by (simp add: example_page_def trim_def isStrWhiteSpaceChar_def js_def)
  have nonblank: "trim (input_value (example_page (js ''Hello''))) \<noteq> []"
    by (simp add: trimmed) (simp add: js_def)
  have other_key: "js ''reply'' \<noteq> js ''response''"
    by (simp add: js_def)
  have no_field: "\<forall>props. Obj [(js ''reply'', Str (js ''Hi there''))] = (Obj props :: unit jsval) \<longrightarrow>
      map_of props (js ''response'') = None"
    using other_key by auto
  have before: \<open>children (example_page (js ''Hello'')) =
      [\<lparr>classList = [js ''message''], innerHTML = js ''<span class="bot">Bot:</span> Welcome''\<rparr>]\<close>
    by (simp add: example_page_def)
  have user_entry: \<open>js ''<span class="user">You:</span> '' @ js ''Hello'' = js ''<span class="user">You:</span> Hello''\<close>
    by (simp add: js_def)
  show ?thesis
    using nonblank
      missing_reply_renders_undefined [OF nonblank _ _ no_field, of example_host 200]
    by (simp add: trimmed before user_entry)
qed

text \<open>
  Claim C5 as the specification states it fails for the body
  \<^verbatim>\<open>null\<close>: it is JSON and has no reply field, yet reading the field of
  \<^verbatim>\<open>null\<close> throws, the handler's promise is rejected, and the log
  ends with the user's entry: no entry of the bot's is appended.
\<close>

theorem null_body_appends_no_reply:
  \<open>sendMessage example_host (Response 200 (Json Null)) (example_page (js ''Hello'')) =
     (fst (click_handler example_host (example_page (js ''Hello''))), Rejected TypeError) \<and>
   children (fst (sendMessage example_host (Response 200 (Json Null)) (example_page (js ''Hello'')))) =
     [\<lparr>classList = [js ''message''], innerHTML = js ''<span class="bot">Bot:</span> Welcome''\<rparr>,
      \<lparr>classList = [js ''message''], innerHTML = js ''<span class="user">You:</span> Hello''\<rparr>]\<close>
proof -
  have trimmed: "trim (input_value (example_page (js ''Hello''))) = js ''Hello''"
    by (simp add: example_page_def trim_def isStrWhiteSpaceChar_def js_def)
  have nonblank: "trim (input_value (example_page (js ''Hello''))) \<noteq> []"
    by (simp add: trimmed) (simp add: js_def)
  have user_entry: \<open>js ''<span class="user">You:</span> '' @ js ''Hello'' = js ''<span class="user">You:</span> Hello''\<close>
    by (simp add: js_def)
  have sync: \<open>children (fst (click_handler example_host (example_page (js ''Hello'')))) =
      [\<lparr>classList = [js ''message''], innerHTML = js ''<span class="bot">Bot:</span> Welcome''\<rparr>,
       \<lparr>classList = [js ''message''], innerHTML = js ''<span class="user">You:</span> Hello''\<rparr>]\<close>
    by (simp add: click_handler_send [OF nonblank] trimmed user_entry) (simp add: example_page_def)
  show ?thesis
    by (simp add: sendMessage_send [OF nonblank] resume_def sync)
qed

end
